theory Spec2Isabelle
  imports Complex_Main
begin

section \<open>JavaScript values\<close>

text \<open>
  The service in \<^verbatim>\<open>src/lib/dataGenerator.ts\<close> works on values of type \<^verbatim>\<open>any\<close>: rows,
  schemas and backend responses are plain JSON-like values. They are modelled by one
  datatype. Conventions of the model:
  \<^item> a number is an integer (the values the generators produce and the counts they
    report); fractions, NaN and the infinities are not values of the model, and an
    integer is printed in plain decimal digits, as JavaScript does below \<open>10^21\<close>;
  \<^item> a string is a list of 8-bit code units;
  \<^item> an object is an association list in insertion order; when a key occurs twice the
    first binding is the property (\<open>setProp\<close> never creates a second one);
  \<^item> only own data properties are read: properties inherited from a prototype
    (\<^verbatim>\<open>constructor\<close>, \<^verbatim>\<open>__proto__\<close>, ...) are not modelled.
\<close>

datatype jsval =
    Undefined
  | Null
  | Bool bool
  | Num int
  | Str string
  | Arr "jsval list"
  | Obj "(string \<times> jsval) list"

datatype error = TypeError | RangeError | SyntaxError | ReadError | NetworkError

type_synonym props = "(string \<times> jsval) list"

definition is_nullish :: "jsval \<Rightarrow> bool" where
  "is_nullish v = (v = Undefined \<or> v = Null)"

text \<open>ToBoolean, as used by \<^verbatim>\<open>||\<close>.\<close>

fun truthy :: "jsval \<Rightarrow> bool" where
  "truthy Undefined = False"
| "truthy Null = False"
| "truthy (Bool b) = b"
| "truthy (Num n) = (n \<noteq> 0)"
| "truthy (Str s) = (s \<noteq> [])"
| "truthy (Arr xs) = True"
| "truthy (Obj kvs) = True"

definition js_or :: "jsval \<Rightarrow> jsval \<Rightarrow> jsval" where
  "js_or a b = (if truthy a then a else b)"

subsection \<open>Strings\<close>


definition newline :: char where
  "newline = CHR 0x0A"

definition dquote :: char where
  "dquote = CHR 0x22"


text \<open>\<^verbatim>\<open>xs.join(sep)\<close> on an array of strings.\<close>

fun join :: "string \<Rightarrow> string list \<Rightarrow> string" where
  "join sep [] = []"
| "join sep [x] = x"
| "join sep (x # y # ys) = x @ sep @ join sep (y # ys)"




definition digit_char :: "nat \<Rightarrow> char" where
  "digit_char d = ''0123456789'' ! d"

fun show_nat :: "nat \<Rightarrow> string" where
  "show_nat n = (if n < 10 then [digit_char n] else show_nat (n div 10) @ [digit_char (n mod 10)])"

declare show_nat.simps [simp del]

definition show_int :: "int \<Rightarrow> string" where
  "show_int i = (if i < 0 then CHR ''-'' # show_nat (nat (- i)) else show_nat (nat i))"

definition is_digit :: "char \<Rightarrow> bool" where
  "is_digit c = (c \<in> set ''0123456789'')"

definition digits_val :: "string \<Rightarrow> nat" where
  "digits_val s = foldl (\<lambda>a c. 10 * a + (of_char c - 48)) 0 s"

text \<open>
  An array index is the canonical decimal form of an integer below \<open>2^32 - 1\<close>. Such
  keys come first, in ascending numeric order, when the keys of an object are
  enumerated.
\<close>

definition is_array_index :: "string \<Rightarrow> bool" where
  "is_array_index s =
     (s \<noteq> [] \<and> list_all is_digit s \<and> (s = ''0'' \<or> hd s \<noteq> CHR ''0'') \<and> digits_val s < 4294967295)"

subsection \<open>Properties\<close>

definition own_keys :: "props \<Rightarrow> string list" where
  "own_keys kvs =
     (let ks = rev (remdups (rev (map fst kvs)))
      in sort_key digits_val (filter is_array_index ks) @ filter (\<lambda>k. \<not> is_array_index k) ks)"

definition lookup :: "props \<Rightarrow> string \<Rightarrow> jsval" where
  "lookup kvs k = (case map_of kvs k of None \<Rightarrow> Undefined | Some v \<Rightarrow> v)"

text \<open>\<^verbatim>\<open>Object.keys(v)\<close>: a TypeError on \<^verbatim>\<open>undefined\<close> and \<^verbatim>\<open>null\<close>.\<close>

fun Object_keys :: "jsval \<Rightarrow> error + string list" where
  "Object_keys Undefined = Inl TypeError"
| "Object_keys Null = Inl TypeError"
| "Object_keys (Bool b) = Inr []"
| "Object_keys (Num n) = Inr []"
| "Object_keys (Str s) = Inr (map show_nat [0..<length s])"
| "Object_keys (Arr xs) = Inr (map show_nat [0..<length xs])"
| "Object_keys (Obj kvs) = Inr (own_keys kvs)"

text \<open>The property read \<^verbatim>\<open>v[k]\<close>: a TypeError on \<^verbatim>\<open>undefined\<close> and \<^verbatim>\<open>null\<close>.\<close>

fun getProp :: "jsval \<Rightarrow> string \<Rightarrow> error + jsval" where
  "getProp Undefined k = Inl TypeError"
| "getProp Null k = Inl TypeError"
| "getProp (Bool b) k = Inr Undefined"
| "getProp (Num n) k = Inr Undefined"
| "getProp (Str s) k =
     Inr (if k = ''length'' then Num (int (length s))
          else if is_array_index k \<and> digits_val k < length s then Str [s ! digits_val k]
          else Undefined)"
| "getProp (Arr xs) k =
     Inr (if k = ''length'' then Num (int (length xs))
          else if is_array_index k \<and> digits_val k < length xs then xs ! digits_val k
          else Undefined)"
| "getProp (Obj kvs) k = Inr (lookup kvs k)"

text \<open>
  The assignment \<^verbatim>\<open>obj[k] = v\<close> on an object literal under construction: an existing
  property keeps its place, a new one is appended.
\<close>

fun setProp :: "props \<Rightarrow> string \<Rightarrow> jsval \<Rightarrow> props" where
  "setProp [] k v = [(k, v)]"
| "setProp ((k', v') # kvs) k v =
     (if k' = k then (k, v) # kvs else (k', v') # setProp kvs k v)"

text \<open>
  ToString, and \<^verbatim>\<open>Array.prototype.join\<close>, which prints \<^verbatim>\<open>undefined\<close> and \<^verbatim>\<open>null\<close>
  elements as the empty string.
\<close>

fun ToString :: "jsval \<Rightarrow> string" where
  "ToString Undefined = ''undefined''"
| "ToString Null = ''null''"
| "ToString (Bool b) = (if b then ''true'' else ''false'')"
| "ToString (Num n) = show_int n"
| "ToString (Str s) = s"
| "ToString (Arr xs) =
     join '','' (map (\<lambda>v. if v = Undefined \<or> v = Null then [] else ToString v) xs)"
| "ToString (Obj kvs) = ''[object Object]''"

definition Array_join :: "string \<Rightarrow> jsval list \<Rightarrow> string" where
  "Array_join sep xs = join sep (map (\<lambda>v. if is_nullish v then [] else ToString v) xs)"

subsection \<open>Number conversion\<close>







subsection \<open>JSON.stringify with a two-space indent\<close>

definition backslash :: char where
  "backslash = CHR 0x5C"

definition hex_char :: "nat \<Rightarrow> char" where
  "hex_char d = ''0123456789abcdef'' ! d"

definition json_escape :: "char \<Rightarrow> string" where
  "json_escape c =
     (if c = dquote then [backslash, dquote]
      else if c = backslash then [backslash, backslash]
      else if c = CHR 0x08 then [backslash, CHR ''b'']
      else if c = CHR 0x0C then [backslash, CHR ''f'']
      else if c = CHR 0x0A then [backslash, CHR ''n'']
      else if c = CHR 0x0D then [backslash, CHR ''r'']
      else if c = CHR 0x09 then [backslash, CHR ''t'']
      else if (of_char c :: nat) < 32
      then [backslash, CHR ''u'', CHR ''0'', CHR ''0'',
            hex_char (of_char c div 16), hex_char (of_char c mod 16)]
      else [c])"

definition QuoteJSONString :: "string \<Rightarrow> string" where
  "QuoteJSONString s = dquote # concat (map json_escape s) @ [dquote]"

text \<open>
  \<open>JSON_ser ind v\<close> serialises \<open>v\<close> at the current indentation \<open>ind\<close>. An \<^verbatim>\<open>undefined\<close>
  array element is written \<^verbatim>\<open>null\<close>; an object member whose value is \<^verbatim>\<open>undefined\<close> is
  left out.
\<close>

fun JSON_ser :: "string \<Rightarrow> jsval \<Rightarrow> string" where
  "JSON_ser ind Undefined = ''null''"
| "JSON_ser ind Null = ''null''"
| "JSON_ser ind (Bool b) = (if b then ''true'' else ''false'')"
| "JSON_ser ind (Num n) = show_int n"
| "JSON_ser ind (Str s) = QuoteJSONString s"
| "JSON_ser ind (Arr xs) =
     (if xs = [] then ''[]''
      else ''['' @ [newline] @ (ind @ ''  '')
           @ join ('','' @ [newline] @ (ind @ ''  '')) (map (JSON_ser (ind @ ''  '')) xs)
           @ [newline] @ ind @ '']'')"
| "JSON_ser ind (Obj kvs) =
     (let ser = map (\<lambda>p. (fst p, JSON_ser (ind @ ''  '') (snd p))) kvs;
          ks = filter (\<lambda>k. lookup kvs k \<noteq> Undefined) (own_keys kvs);
          members = map (\<lambda>k. QuoteJSONString k @ '': '' @ (case map_of ser k of None \<Rightarrow> [] | Some t \<Rightarrow> t)) ks
      in if members = [] then ''{}''
         else ''{'' @ [newline] @ (ind @ ''  '')
              @ join ('','' @ [newline] @ (ind @ ''  '')) members
              @ [newline] @ ind @ ''}'')"

definition JSON_stringify :: "jsval list \<Rightarrow> string" where
  "JSON_stringify data = JSON_ser [] (Arr data)"

section \<open>The platform\<close>

text \<open>
  What the service takes from its surroundings is a parameter of the model:
  \<^item> \<open>Math_random k\<close> is the result of the \<open>k\<close>-th call of \<^verbatim>\<open>Math.random()\<close>, read as an
    exact rational;
  \<^item> \<open>Date_now k\<close> is the clock, in milliseconds since the epoch, at the \<open>k\<close>-th reading
    (\<^verbatim>\<open>Date.now()\<close> or \<^verbatim>\<open>new Date()\<close>);
  \<^item> \<open>toISOString t\<close> is the text \<^verbatim>\<open>new Date(t).toISOString()\<close> for a time value \<open>t\<close>;
  \<^item> \<open>Date_valid v\<close> says whether \<^verbatim>\<open>new Date(v).toString()\<close> differs from
    \<^verbatim>\<open>'Invalid Date'\<close>; which strings parse as dates is left to the implementation by
    the language standard;
  \<^item> \<open>JSON_parse\<close> is \<^verbatim>\<open>JSON.parse\<close> on an uploaded text; the variable that receives its
    result is declared \<^verbatim>\<open>any[]\<close>, and the model covers the texts whose value is an
    array.
  The state threaded through a computation counts the calls made so far: the first
  component the calls of \<^verbatim>\<open>Math.random\<close>, the second the readings of the clock.
\<close>

record platform =
  Math_random :: "nat \<Rightarrow> rat"
  Date_now :: "nat \<Rightarrow> int"
  toISOString :: "int \<Rightarrow> string"
  Date_valid :: "jsval \<Rightarrow> bool"
  JSON_parse :: "string \<Rightarrow> error + jsval list"

type_synonym calls = "nat \<times> nat"

text \<open>
  The contract of the platform: \<^verbatim>\<open>Math.random()\<close> lies in \<open>[0, 1)\<close>, and the clock shows
  a time value after the epoch.
\<close>

definition max_time :: int where
  "max_time = 8640000000000000"


text \<open>
  \<^verbatim>\<open>new Date(x).toISOString()\<close> for a number \<open>x\<close>: the time value is \<open>x\<close> truncated towards
  zero, and a RangeError is raised when \<open>x\<close> is outside \<open>\<plusminus>8.64e15\<close>.
\<close>

definition js_trunc :: "rat \<Rightarrow> int" where
  "js_trunc x = (if 0 \<le> x then \<lfloor>x\<rfloor> else \<lceil>x\<rceil>)"

definition Date_toISOString :: "platform \<Rightarrow> rat \<Rightarrow> error + jsval" where
  "Date_toISOString P x =
     (if \<bar>x\<bar> > of_int max_time then Inl RangeError
      else Inr (Str (toISOString P (js_trunc x))))"

section \<open>processUploadedData\<close>









section \<open>generateFallbackSchema\<close>


definition descriptor :: "string \<Rightarrow> string \<Rightarrow> string \<times> jsval" where
  "descriptor name ty = (name, Obj [(''type'', Str ty)])"

definition cannedSchema :: "string \<Rightarrow> jsval" where
  "cannedSchema domain =
     (if domain = ''healthcare'' then
        Obj [descriptor ''patient_id'' ''string'', descriptor ''name'' ''string'', descriptor ''age'' ''number'',
             descriptor ''condition'' ''string'', descriptor ''treatment'' ''string'',
             descriptor ''admission_date'' ''date'']
      else if domain = ''finance'' then
        Obj [descriptor ''account_id'' ''string'', descriptor ''customer_name'' ''string'',
             descriptor ''transaction_amount'' ''number'', descriptor ''transaction_type'' ''string'',
             descriptor ''transaction_date'' ''date'', descriptor ''balance'' ''number'']
      else if domain = ''retail'' then
        Obj [descriptor ''customer_id'' ''string'', descriptor ''product_name'' ''string'',
             descriptor ''category'' ''string'', descriptor ''price'' ''number'',
             descriptor ''quantity'' ''number'', descriptor ''purchase_date'' ''date'']
      else
        Obj [descriptor ''id'' ''string'', descriptor ''name'' ''string'', descriptor ''value'' ''number'',
             descriptor ''category'' ''string'', descriptor ''created_at'' ''date''])"






section \<open>generateFallbackData\<close>

text \<open>
  Lines 225 to 264. \<open>fallbackRows\<close> is the loop over the rows (lines 229 to 251),
  \<open>fallbackRow\<close> the \<^verbatim>\<open>forEach\<close> over the keys of the schema (lines 231 to 249) and
  \<open>fallbackValue\<close> its \<^verbatim>\<open>switch\<close> (lines 233 to 248). A row count that the request leaves
  out is 1000.
\<close>

record DatasetGenerationOptions =
  domain :: string
  data_type :: string
  sourceData :: "jsval list"
  schema :: jsval
  description :: "string option"
  isGuest :: "bool option"
  rowCount :: "int option"
  quality_level :: "string option"
  privacy_level :: "string option"

record generation =
  data :: jsval
  rowsGenerated :: jsval
  columnsGenerated :: nat
  generationMethod :: string
  qualityScore :: int
  privacyScore :: int
  biasScore :: int

definition year_ms :: rat where
  "year_ms = 365 * 24 * 60 * 60 * 1000"

text \<open>
  The \<^verbatim>\<open>switch\<close> on the declared type. The comparison is strict, so only the four
  strings select a typed value; every other value of \<^verbatim>\<open>schema[key].type\<close> takes the
  default branch. The date branch reads the clock, then \<^verbatim>\<open>Math.random()\<close>.
\<close>

definition fallbackValue :: "platform \<Rightarrow> string \<Rightarrow> nat \<Rightarrow> jsval \<Rightarrow> calls \<Rightarrow> error + (jsval \<times> calls)" where
  "fallbackValue P key i fieldType c =
     (if fieldType = Str ''string'' then
        Inr (Str (''Generated '' @ key @ '' '' @ show_nat (i + 1)), c)
      else if fieldType = Str ''number'' then
        Inr (Num \<lfloor>Math_random P (fst c) * 1000\<rfloor>, (fst c + 1, snd c))
      else if fieldType = Str ''boolean'' then
        Inr (Bool (Math_random P (fst c) > 1 / 2), (fst c + 1, snd c))
      else if fieldType = Str ''date'' then
        (case Date_toISOString P (of_int (Date_now P (snd c)) - Math_random P (fst c) * year_ms) of
           Inl e \<Rightarrow> Inl e
         | Inr v \<Rightarrow> Inr (v, (fst c + 1, snd c + 1)))
      else Inr (Str (''Value '' @ show_nat (i + 1)), c))"

fun fallbackRow :: "platform \<Rightarrow> jsval \<Rightarrow> nat \<Rightarrow> string list \<Rightarrow> props \<Rightarrow> calls \<Rightarrow> error + (props \<times> calls)" where
  "fallbackRow P sch i [] row c = Inr (row, c)"
| "fallbackRow P sch i (key # keys) row c =
     (case getProp sch key of
        Inl e \<Rightarrow> Inl e
      | Inr d \<Rightarrow>
          (case getProp d ''type'' of
             Inl e \<Rightarrow> Inl e
           | Inr fieldType \<Rightarrow>
               (case fallbackValue P key i fieldType c of
                  Inl e \<Rightarrow> Inl e
                | Inr (v, c') \<Rightarrow> fallbackRow P sch i keys (setProp row key v) c')))"

text \<open>The loop \<^verbatim>\<open>for (let i = 0; i < rowCount; i++)\<close>, with the rows pushed so far.\<close>

function fallbackRows :: "platform \<Rightarrow> jsval \<Rightarrow> int \<Rightarrow> nat \<Rightarrow> jsval list \<Rightarrow> calls \<Rightarrow> error + (jsval list \<times> calls)" where
  "fallbackRows P sch n i acc c =
     (if int i < n then
        (case Object_keys sch of
           Inl e \<Rightarrow> Inl e
         | Inr keys \<Rightarrow>
             (case fallbackRow P sch i keys [] c of
                Inl e \<Rightarrow> Inl e
              | Inr (row, c') \<Rightarrow> fallbackRows P sch n (i + 1) (acc @ [Obj row]) c'))
      else Inr (acc, c))"
  by pat_completeness auto
termination
  by (relation "measure (\<lambda>(P, sch, n, i, acc, c). nat (n - int i))") auto

declare fallbackRows.simps [simp del]

definition generateFallbackData :: "platform \<Rightarrow> DatasetGenerationOptions \<Rightarrow> calls \<Rightarrow> error + (generation \<times> calls)" where
  "generateFallbackData P options c =
     (let n = (case rowCount options of None \<Rightarrow> 1000 | Some r \<Rightarrow> r)
      in case fallbackRows P (schema options) n 0 [] c of
           Inl e \<Rightarrow> Inl e
         | Inr (rows, c') \<Rightarrow>
             (case Object_keys (schema options) of
                Inl e \<Rightarrow> Inl e
              | Inr keys \<Rightarrow>
                  Inr (\<lparr> data = Arr rows, rowsGenerated = Num (int (length rows)),
                         columnsGenerated = length keys, generationMethod = ''local_fallback'',
                         qualityScore = 85, privacyScore = 90, biasScore = 88 \<rparr>, c')))"

section \<open>generateSyntheticDataset\<close>

text \<open>
  Lines 192 to 223. The outcome of the request to the backend: \<^verbatim>\<open>fetch\<close> rejects, or it
  delivers a response with its \<^verbatim>\<open>ok\<close> flag and a body that \<^verbatim>\<open>response.json()\<close> either
  rejects or decodes.
\<close>

datatype body = NotJson | Json jsval

datatype fetched = Rejected | Response bool body

text \<open>\<^verbatim>\<open>v?.[k]\<close>: \<^verbatim>\<open>undefined\<close> when \<open>v\<close> is \<^verbatim>\<open>undefined\<close> or \<^verbatim>\<open>null\<close>.\<close>

definition optProp :: "jsval \<Rightarrow> string \<Rightarrow> error + jsval" where
  "optProp v k = (if is_nullish v then Inr Undefined else getProp v k)"

text \<open>
  The body of the \<^verbatim>\<open>try\<close>: \<open>Inl\<close> is an exception, which the \<^verbatim>\<open>catch\<close> logs; \<open>Inr None\<close>
  is a response that is not \<^verbatim>\<open>ok\<close>, where control leaves the \<^verbatim>\<open>if\<close> without a result.
\<close>

definition tryBackend :: "fetched \<Rightarrow> error + generation option" where
  "tryBackend f =
     (case f of
        Rejected \<Rightarrow> Inl NetworkError
      | Response ok b \<Rightarrow>
          if ok then
            (case b of
               NotJson \<Rightarrow> Inl SyntaxError
             | Json result \<Rightarrow>
                 (case getProp result ''data'' of
                    Inl e \<Rightarrow> Inl e
                  | Inr d \<Rightarrow>
                      (case optProp d ''length'' of
                         Inl e \<Rightarrow> Inl e
                       | Inr len \<Rightarrow>
                           (case optProp d ''0'' of
                              Inl e \<Rightarrow> Inl e
                            | Inr first \<Rightarrow>
                                (case Object_keys (js_or first (Obj [])) of
                                   Inl e \<Rightarrow> Inl e
                                 | Inr keys \<Rightarrow>
                                     Inr (Some \<lparr> data = d, rowsGenerated = js_or len (Num 0),
                                                 columnsGenerated = length keys,
                                                 generationMethod = ''backend_local'',
                                                 qualityScore = 95, privacyScore = 98,
                                                 biasScore = 92 \<rparr>))))))
          else Inr None)"

definition generateSyntheticDataset ::
    "platform \<Rightarrow> fetched \<Rightarrow> DatasetGenerationOptions \<Rightarrow> calls \<Rightarrow> error + (generation \<times> calls)" where
  "generateSyntheticDataset P f options c =
     (case tryBackend f of
        Inr (Some g) \<Rightarrow> Inr (g, c)
      | _ \<Rightarrow> generateFallbackData P options c)"

section \<open>exportData\<close>

text \<open>
  Lines 266 to 289. \<open>csvRowsLoop\<close> is the \<^verbatim>\<open>forEach\<close> over the rows that pushes one line
  per row (lines 277 to 283), \<open>csvValues\<close> the \<^verbatim>\<open>map\<close> over the headers (lines 278 to
  281).
\<close>

text \<open>The cell \<^verbatim>\<open>typeof value === 'string' ? `"${value}"` : value\<close>.\<close>

definition quoted :: "jsval \<Rightarrow> jsval" where
  "quoted v = (case v of Str s \<Rightarrow> Str (dquote # s @ [dquote]) | _ \<Rightarrow> v)"

fun csvValues :: "string list \<Rightarrow> jsval \<Rightarrow> error + jsval list" where
  "csvValues [] row = Inr []"
| "csvValues (header # headers) row =
     (case getProp row header of
        Inl e \<Rightarrow> Inl e
      | Inr v \<Rightarrow>
          (case csvValues headers row of
             Inl e \<Rightarrow> Inl e
           | Inr vs \<Rightarrow> Inr (quoted v # vs)))"

fun csvRowsLoop :: "string list \<Rightarrow> jsval list \<Rightarrow> string list \<Rightarrow> error + string list" where
  "csvRowsLoop headers [] csvRows = Inr csvRows"
| "csvRowsLoop headers (row # rows) csvRows =
     (case csvValues headers row of
        Inl e \<Rightarrow> Inl e
      | Inr vs \<Rightarrow> csvRowsLoop headers rows (csvRows @ [Array_join '','' vs]))"

text \<open>The format defaults to \<^verbatim>\<open>'csv'\<close> when the caller passes none.\<close>

definition exportData :: "jsval list \<Rightarrow> string option \<Rightarrow> error + string" where
  "exportData dataset fmt =
     (let format = (case fmt of None \<Rightarrow> ''csv'' | Some f \<Rightarrow> f)
      in if format = ''json'' then Inr (JSON_stringify dataset)
         else if format = ''csv'' then
           (case dataset of
              [] \<Rightarrow> Inr []
            | row0 # _ \<Rightarrow>
                (case Object_keys row0 of
                   Inl e \<Rightarrow> Inl e
                 | Inr headers \<Rightarrow>
                     (case csvRowsLoop headers dataset [join '','' headers] of
                        Inl e \<Rightarrow> Inl e
                      | Inr csvRows \<Rightarrow> Inr (join [newline] csvRows))))
         else Inr (JSON_stringify dataset))"

section \<open>Inputs of the properties\<close>

text \<open>
  A schema the generators can run on: it has keys to enumerate, and none of its
  descriptors is \<^verbatim>\<open>undefined\<close> or \<^verbatim>\<open>null\<close> (the generators read \<^verbatim>\<open>schema[key].type\<close>).
  Every schema of field descriptors is of this kind.
\<close>

definition schema_usable :: "jsval \<Rightarrow> bool" where
  "schema_usable sch =
     (case Object_keys sch of
        Inl e \<Rightarrow> False
      | Inr keys \<Rightarrow>
          list_all (\<lambda>key. case getProp sch key of Inl e \<Rightarrow> False | Inr d \<Rightarrow> \<not> is_nullish d) keys)"







text \<open>
  A platform and a request for the concrete instances: every random number is one half,
  the clock stands at 1700000000000 ms, a time value is printed as its number of
  milliseconds, and the one text its \<^verbatim>\<open>Date\<close> accepts is \<^verbatim>\<open>2024-01-15\<close>.
\<close>

definition demo_platform :: platform where
  "demo_platform =
     \<lparr> Math_random = (\<lambda>k. 1 / 2), Date_now = (\<lambda>k. 1700000000000),
       toISOString = (\<lambda>t. show_int t), Date_valid = (\<lambda>v. v = Str ''2024-01-15''),
       JSON_parse = (\<lambda>s. Inl SyntaxError) \<rparr>"

definition request :: "jsval \<Rightarrow> int option \<Rightarrow> DatasetGenerationOptions" where
  "request sch n =
     \<lparr> domain = ''finance'', data_type = ''tabular'', sourceData = [], schema = sch,
       description = None, isGuest = None, rowCount = n,
       quality_level = None, privacy_level = None \<rparr>"


definition typed_schema :: jsval where
  "typed_schema = Obj [descriptor ''n'' ''number'', descriptor ''d'' ''date'']"

definition typed_result :: generation where
  "typed_result =
     \<lparr> data = Arr [Obj [(''n'', Num 500), (''d'', Str ''1684232000000'')]],
       rowsGenerated = Num 1, columnsGenerated = 2, generationMethod = ''local_fallback'',
       qualityScore = 85, privacyScore = 90, biasScore = 88 \<rparr>"

text \<open>A response body that carries scores of its own, and one returned row.\<close>

definition scored_body :: jsval where
  "scored_body =
     Obj [(''data'', Arr [Obj [(''x'', Num 1)]]), (''qualityScore'', Num 70),
          (''privacyScore'', Num 60), (''biasScore'', Num 50)]"



definition mixed_rows :: "jsval list" where
  "mixed_rows = [Obj [(''a'', Str ''x,y''), (''b'', Num 7)], Obj [(''a'', Bool True)]]"


section \<open>Round trips through the two file formats\<close>





















section \<open>Properties\<close>

subsection \<open>Objects and their properties\<close>





lemma getProp_total: "\<not> is_nullish d \<Longrightarrow> \<exists>t. getProp d k = Inr t"
  by (cases d) (auto simp: is_nullish_def)

subsection \<open>The arithmetic of the date rule\<close>





subsection \<open>The loops of the Row Synthesizer\<close>










lemma generateFallbackData_Inr:
  assumes "generateFallbackData P options c = Inr (g, c')"
  obtains rows keys where
    "fallbackRows P (schema options) (case rowCount options of None \<Rightarrow> 1000 | Some r \<Rightarrow> r) 0 [] c = Inr (rows, c')"
    and "Object_keys (schema options) = Inr keys"
    and "g = \<lparr> data = Arr rows, rowsGenerated = Num (int (length rows)),
                columnsGenerated = length keys, generationMethod = ''local_fallback'',
                qualityScore = 85, privacyScore = 90, biasScore = 88 \<rparr>"
  using assms unfolding generateFallbackData_def Let_def
  by (auto split: sum.splits prod.splits)







subsection \<open>Evaluation on concrete inputs\<close>

text \<open>Equations that evaluate the model on concrete inputs.\<close>

lemma is_array_index_letter: "\<not> is_digit c \<Longrightarrow> is_array_index (c # s) = False"
  by (simp add: is_array_index_def)

lemma is_array_index_zero: "is_array_index ''0'' = True" and digits_val_zero: "digits_val ''0'' = 0"
  by (simp_all add: is_array_index_def is_digit_def digits_val_def)

lemmas eval_simps =
  generateFallbackData_def generateSyntheticDataset_def tryBackend_def optProp_def js_or_def
  request_def demo_platform_def fallbackRows.simps fallbackValue_def Date_toISOString_def
  js_trunc_def year_ms_def max_time_def
  own_keys_def is_array_index_letter is_array_index_zero digits_val_zero is_digit_def
  lookup_def is_nullish_def
  schema_usable_def descriptor_def cannedSchema_def show_int_def show_nat.simps digit_char_def

subsection \<open>The Row Synthesizer: row count and key set\<close>






subsection \<open>The orchestrator: fallback on a failed backend call\<close>




subsection \<open>The Row Synthesizer: unknown declared types\<close>





subsection \<open>The Row Synthesizer: numbers and dates\<close>


text \<open>The instance: one row over a number field and a date field.\<close>

lemma typed_rows:
  "generateFallbackData demo_platform (request typed_schema (Some 1)) (0, 0) = Inr (typed_result, (2, 1))"
  by (simp add: typed_schema_def typed_result_def eval_simps)



subsection \<open>The orchestrator: the remote path\<close>

lemma tryBackend_Some:
  assumes "tryBackend f = Inr (Some g)"
  obtains result d len first keys where
    "f = Response True (Json result)" and "getProp result ''data'' = Inr d"
    and "optProp d ''length'' = Inr len" and "optProp d ''0'' = Inr first"
    and "Object_keys (js_or first (Obj [])) = Inr keys"
    and "g = \<lparr> data = d, rowsGenerated = js_or len (Num 0), columnsGenerated = length keys,
                generationMethod = ''backend_local'', qualityScore = 95, privacyScore = 98,
                biasScore = 92 \<rparr>"
  using assms unfolding tryBackend_def
  by (auto split: fetched.splits body.splits sum.splits if_splits)

lemma optProp_total: "\<exists>v. optProp d k = Inr v"
  using getProp_total [of d k] by (auto simp: optProp_def)

lemma Object_keys_js_or: "\<exists>keys. Object_keys (js_or v (Obj [])) = Inr keys"
  by (cases v) (auto simp: js_or_def)

lemma tryBackend_ok:
  assumes "\<not> is_nullish result"
  shows "\<exists>g. tryBackend (Response True (Json result)) = Inr (Some g)
           \<and> generationMethod g = ''backend_local''
           \<and> qualityScore g = 95 \<and> privacyScore g = 98 \<and> biasScore g = 92
           \<and> getProp result ''data'' = Inr (data g)"
proof -
  from getProp_total [OF assms] obtain d where d: "getProp result ''data'' = Inr d" by blast
  from optProp_total obtain len where len: "optProp d ''length'' = Inr len" by blast
  from optProp_total obtain first where first: "optProp d ''0'' = Inr first" by blast
  from Object_keys_js_or obtain keys where k: "Object_keys (js_or first (Obj [])) = Inr keys"
    by blast
  show ?thesis using d len first k by (simp add: tryBackend_def)
qed

lemma generateSyntheticDataset_cases:
  assumes "generateSyntheticDataset P f options c = Inr (g, c')"
  shows "(tryBackend f = Inr (Some g) \<and> c' = c)
         \<or> ((\<forall>g'. tryBackend f \<noteq> Inr (Some g')) \<and> generateFallbackData P options c = Inr (g, c'))"
  using assms unfolding generateSyntheticDataset_def
  by (auto split: sum.splits option.splits)

text \<open>
  Claim C7 says that a successful backend call passes on the scores of the response and
  uses 95, 98 and 92 only where the response has none. The code never reads a score:
  a response that carries the scores 70, 60 and 50 yields 95, 98 and 92.
\<close>

theorem backend_scores_counterexample:
  "generateSyntheticDataset demo_platform (Response True (Json scored_body))
     (request (cannedSchema ''finance'') (Some 5)) (0, 0) =
   Inr (\<lparr> data = Arr [Obj [(''x'', Num 1)]], rowsGenerated = Num 1, columnsGenerated = 1,
          generationMethod = ''backend_local'', qualityScore = 95, privacyScore = 98,
          biasScore = 92 \<rparr>, (0, 0))"
  by (simp add: scored_body_def eval_simps)

text \<open>
  Claim C7, amended. When the backend answers with a success status and a JSON body
  that is not \<^verbatim>\<open>null\<close>, the result is the \<^verbatim>\<open>data\<close> of the body with method
  \<^verbatim>\<open>backend_local\<close> and the fixed scores 95, 98 and 92, whatever else the body holds.
\<close>

theorem backend_scores_fixed:
  assumes "\<not> is_nullish result"
  shows "\<exists>g. generateSyntheticDataset P (Response True (Json result)) options c = Inr (g, c)
           \<and> generationMethod g = ''backend_local''
           \<and> qualityScore g = 95 \<and> privacyScore g = 98 \<and> biasScore g = 92
           \<and> getProp result ''data'' = Inr (data g)"
  using tryBackend_ok [OF assms] by (auto simp: generateSyntheticDataset_def)

theorem backend_scores_fixed_witness:
  "\<not> is_nullish scored_body
   \<and> (\<exists>g. generateSyntheticDataset demo_platform (Response True (Json scored_body))
             (request (cannedSchema ''finance'') (Some 5)) (0, 0) = Inr (g, (0, 0))
           \<and> generationMethod g = ''backend_local''
           \<and> qualityScore g = 95 \<and> privacyScore g = 98 \<and> biasScore g = 92
           \<and> getProp scored_body ''data'' = Inr (data g))"
  using backend_scores_fixed [of scored_body demo_platform "request (cannedSchema ''finance'') (Some 5)" "(0, 0)"]
  by (simp add: scored_body_def is_nullish_def)

subsection \<open>The orchestrator: the reported counts\<close>

text \<open>
  Claim C6 says that on both paths \<^verbatim>\<open>columnsGenerated\<close> is the field count of the
  schema. On the remote path the code counts the keys of the first returned row: with
  the six-field finance schema and a returned row of one key it reports 1.
\<close>

theorem generation_counts_counterexample:
  "map_sum id (\<lambda>r. columnsGenerated (fst r))
     (generateSyntheticDataset demo_platform (Response True (Json scored_body))
        (request (cannedSchema ''finance'') (Some 5)) (0, 0)) = Inr 1
   \<and> map_sum id length (Object_keys (cannedSchema ''finance'')) = Inr 6"
  by (simp add: scored_body_def eval_simps)

text \<open>
  Claim C6, amended. Whenever the returned data is an array, \<^verbatim>\<open>rowsGenerated\<close> is its
  length on both paths. \<^verbatim>\<open>columnsGenerated\<close> is the number of keys of the schema on the
  fallback path, and on the remote path the number of keys of the first returned row
  (0 when there is none or when it is falsy). Both are computed, none is an input.
\<close>

theorem generation_counts:
  assumes "generateSyntheticDataset P f options c = Inr (g, c')" and "data g = Arr rows"
  shows "rowsGenerated g = Num (int (length rows))
         \<and> (generationMethod g = ''local_fallback'' \<or> generationMethod g = ''backend_local'')
         \<and> (generationMethod g = ''local_fallback'' \<longrightarrow>
              (\<exists>keys. Object_keys (schema options) = Inr keys \<and> columnsGenerated g = length keys))
         \<and> (generationMethod g = ''backend_local'' \<longrightarrow>
              columnsGenerated g =
                (case rows of
                   [] \<Rightarrow> 0
                 | row0 # _ \<Rightarrow> (case Object_keys (js_or row0 (Obj [])) of Inr ks \<Rightarrow> length ks | Inl e \<Rightarrow> 0)))"
proof -
  from generateSyntheticDataset_cases [OF assms(1)] show ?thesis
  proof
    assume remote: "tryBackend f = Inr (Some g) \<and> c' = c"
    then obtain result d len first keys where
      d: "getProp result ''data'' = Inr d"
      and len: "optProp d ''length'' = Inr len" and first: "optProp d ''0'' = Inr first"
      and k: "Object_keys (js_or first (Obj [])) = Inr keys"
      and g: "g = \<lparr> data = d, rowsGenerated = js_or len (Num 0), columnsGenerated = length keys,
                generationMethod = ''backend_local'', qualityScore = 95, privacyScore = 98,
                biasScore = 92 \<rparr>"
      by (auto elim: tryBackend_Some)
    from g assms(2) have dr: "d = Arr rows" by simp
    have l: "len = Num (int (length rows))"
      using len dr by (simp add: optProp_def is_nullish_def)
    have f: "first = (case rows of [] \<Rightarrow> Undefined | row0 # _ \<Rightarrow> row0)"
      using first dr
      by (cases rows) (simp_all add: optProp_def is_nullish_def is_array_index_zero digits_val_zero)
    have rg: "rowsGenerated g = Num (int (length rows))"
      using g l by (simp add: js_or_def)
    have cg: "columnsGenerated g = (case rows of [] \<Rightarrow> 0
                 | row0 # _ \<Rightarrow> (case Object_keys (js_or row0 (Obj [])) of Inr ks \<Rightarrow> length ks | Inl e \<Rightarrow> 0))"
      using g k f by (cases rows) (simp_all add: js_or_def own_keys_def)
    show ?thesis using rg cg g by simp
  next
    assume "(\<forall>g'. tryBackend f \<noteq> Inr (Some g')) \<and> generateFallbackData P options c = Inr (g, c')"
    then have fb: "generateFallbackData P options c = Inr (g, c')" by simp
    from fb obtain rows' keys where
      k: "Object_keys (schema options) = Inr keys"
      and g: "g = \<lparr> data = Arr rows', rowsGenerated = Num (int (length rows')),
                columnsGenerated = length keys, generationMethod = ''local_fallback'',
                qualityScore = 85, privacyScore = 90, biasScore = 88 \<rparr>"
      by (rule generateFallbackData_Inr)
    from g assms(2) have "rows' = rows" by simp
    then show ?thesis using g k by simp
  qed
qed

text \<open>The instance: one result of each path.\<close>

theorem generation_counts_witness:
  "generateSyntheticDataset demo_platform (Response True (Json scored_body))
       (request (cannedSchema ''finance'') (Some 5)) (0, 0)
     = Inr (\<lparr> data = Arr [Obj [(''x'', Num 1)]], rowsGenerated = Num 1, columnsGenerated = 1,
              generationMethod = ''backend_local'', qualityScore = 95, privacyScore = 98,
              biasScore = 92 \<rparr>, (0, 0))
   \<and> generateSyntheticDataset demo_platform Rejected (request typed_schema (Some 1)) (0, 0)
     = Inr (typed_result, (2, 1))
   \<and> rowsGenerated typed_result = Num 1
   \<and> generationMethod typed_result = ''local_fallback''
   \<and> (\<exists>keys. Object_keys typed_schema = Inr keys \<and> columnsGenerated typed_result = length keys)"
proof -
  have remote: "generateSyntheticDataset demo_platform (Response True (Json scored_body))
       (request (cannedSchema ''finance'') (Some 5)) (0, 0)
     = Inr (\<lparr> data = Arr [Obj [(''x'', Num 1)]], rowsGenerated = Num 1, columnsGenerated = 1,
              generationMethod = ''backend_local'', qualityScore = 95, privacyScore = 98,
              biasScore = 92 \<rparr>, (0, 0))"
    by (simp add: scored_body_def eval_simps)
  have local: "generateSyntheticDataset demo_platform Rejected (request typed_schema (Some 1)) (0, 0)
     = Inr (typed_result, (2, 1))"
    using typed_rows by (simp add: generateSyntheticDataset_def tryBackend_def)
  have d: "data typed_result = Arr [Obj [(''n'', Num 500), (''d'', Str ''1684232000000'')]]"
    by (simp add: typed_result_def)
  from generation_counts [OF local d] generation_counts [OF remote] remote local
  show ?thesis by (simp add: request_def typed_result_def)
qed

subsection \<open>The Fallback Schema Synthesizer\<close>


















subsection \<open>The Export Encoder\<close>







lemma mixed_csv:
  "exportData mixed_rows (Some ''csv'')
     = Inr (''a,b'' @ [newline] @ [dquote] @ ''x,y'' @ [dquote] @ '',7'' @ [newline] @ ''true,'')"
  by (simp add: mixed_rows_def exportData_def Array_join_def quoted_def eval_simps)


subsection \<open>The Schema Inferencer\<close>









subsection \<open>Round trips\<close>




























































end
